theory Spec2Isabelle
  imports Complex_Main "HOL-Library.Char_ord" "HOL-Library.List_Lexorder" "HOL-Library.Multiset"
    "HOL-Library.AList"
begin

section \<open>Python values, errors and strings\<close>

text \<open>
  The embedded program is \<^verbatim>\<open>ngtsio_get.py\<close>.  Python strings are \<^typ>\<open>string\<close>;
  Python compares strings lexicographically by character code, which is the order on
  \<^typ>\<open>char list\<close> here.  Every \<^verbatim>\<open>sys.exit\<close> and every exception of the
  source is a value of \<open>error\<close>; a \<^verbatim>\<open>warnings.warn\<close> is a message appended
  to the list of diagnostics a function returns beside its value.
\<close>

datatype error =
    SysExit string
  | TypeError
  | ValueError
  | IndexError
  | KeyError string
  | AttributeError

definition is_space :: "char \<Rightarrow> bool" where
  "is_space c = (c \<in> set [CHR '' '', CHR 0x09, CHR 0x0A, CHR 0x0B, CHR 0x0C, CHR 0x0D])"

text \<open>\<^verbatim>\<open>s.strip()\<close> and \<^verbatim>\<open>np.char.strip\<close>: whitespace removed at both ends.\<close>

definition strip :: "string \<Rightarrow> string" where
  "strip s = rev (dropWhile is_space (rev (dropWhile is_space s)))"

definition digit_char :: "nat \<Rightarrow> char" where
  "digit_char d = ''0123456789'' ! d"

text \<open>\<^verbatim>\<open>str(n)\<close> of a non-negative integer: its decimal digits.\<close>

function str_nat :: "nat \<Rightarrow> string" where
  "str_nat n = (if n < 10 then [digit_char n] else str_nat (n div 10) @ [digit_char (n mod 10)])"
  by pat_completeness auto
termination
  by (relation "measure (\<lambda>n. n)") auto

declare str_nat.simps [simp del]

definition py_str :: "int \<Rightarrow> string" where
  "py_str i = (if i < 0 then CHR ''-'' # str_nat (nat (- i)) else str_nat (nat i))"

definition is_digit :: "char \<Rightarrow> bool" where
  "is_digit c = (CHR ''0'' \<le> c \<and> c \<le> CHR ''9'')"

definition digit_val :: "char \<Rightarrow> nat" where
  "digit_val c = of_char c - 48"

definition nat_of_digits :: "string \<Rightarrow> nat" where
  "nat_of_digits ds = foldl (\<lambda>acc c. 10 * acc + digit_val c) 0 ds"

text \<open>
  \<^verbatim>\<open>int(s)\<close> of a string: surrounding whitespace and one sign are accepted, the
  rest must be a non-empty run of decimal digits; anything else raises ValueError.
\<close>

definition py_int_of_str :: "string \<Rightarrow> error + int" where
  "py_int_of_str s =
     (let t = strip s;
          (neg, ds) = (case t of
                         c # r \<Rightarrow> if c = CHR ''-'' then (True, r)
                                   else if c = CHR ''+'' then (False, r) else (False, t)
                       | [] \<Rightarrow> (False, []))
      in if ds \<noteq> [] \<and> list_all is_digit ds
         then Inr (if neg then - int (nat_of_digits ds) else int (nat_of_digits ds))
         else Inl ValueError)"

text \<open>\<^verbatim>\<open>int(x)\<close> of a float truncates towards zero.\<close>

definition py_int_of_float :: "real \<Rightarrow> int" where
  "py_int_of_float x = (if 0 \<le> x then \<lfloor>x\<rfloor> else \<lceil>x\<rceil>)"

text \<open>Running a fallible function over a list stops at the first error.\<close>

fun mapM :: "('a \<Rightarrow> error + 'b) \<Rightarrow> 'a list \<Rightarrow> error + 'b list" where
  "mapM f [] = Inr []"
| "mapM f (x # xs) =
     (case f x of
        Inl e \<Rightarrow> Inl e
      | Inr y \<Rightarrow> (case mapM f xs of Inl e \<Rightarrow> Inl e | Inr ys \<Rightarrow> Inr (y # ys)))"

section \<open>Identifier normalisation: \<^verbatim>\<open>objid_6digit\<close>\<close>

text \<open>
  The sequences \<^verbatim>\<open>objid_6digit\<close> receives are Python lists or NumPy string
  arrays.  A NumPy string array has a fixed item size: storing a longer string into an
  element keeps only its first \<open>itemsize\<close> characters.  \<open>PyList\<close> is a Python
  list, \<open>NdArray w xs\<close> an array of item size \<open>w\<close>.
\<close>

datatype obj_list = PyList "string list" | NdArray nat "string list"

fun items :: "obj_list \<Rightarrow> string list" where
  "items (PyList xs) = xs"
| "items (NdArray w xs) = xs"

text \<open>\<^verbatim>\<open>obj_list[i] = s\<close>.\<close>

fun store :: "obj_list \<Rightarrow> string \<Rightarrow> string" where
  "store (PyList xs) s = s"
| "store (NdArray w xs) s = take w s"

fun set_items :: "obj_list \<Rightarrow> string list \<Rightarrow> obj_list" where
  "set_items (PyList xs) ys = PyList ys"
| "set_items (NdArray w xs) ys = NdArray w ys"

text \<open>
  The inner loop \<^verbatim>\<open>while len(obj_id)<6: obj_id = '0'+obj_id\<close>.
\<close>

function pad6 :: "string \<Rightarrow> string" where
  "pad6 s = (if length s < 6 then pad6 (CHR ''0'' # s) else s)"
  by pat_completeness auto
termination
  by (relation "measure (\<lambda>s. 6 - length s)") auto

declare pad6.simps [simp del]

text \<open>
  \<^verbatim>\<open>for i, obj_id in enumerate(obj_list): ...; obj_list[i] = obj_id\<close>: every
  element is padded and stored back into the sequence it came from.
\<close>

definition objid_6digit :: "obj_list \<Rightarrow> obj_list" where
  "objid_6digit l = set_items l (map (\<lambda>s. store l (pad6 s)) (items l))"

section \<open>The file set\<close>

text \<open>
  \<open>fnames\<close> stands for the dictionary of file names together with what the files
  hold.  The CATALOGUE table has one row per object; its OBJ_ID column is a fixed-width
  string column of item size \<open>cat_width\<close>, held in \<open>cat_objid\<close> as the readers return
  it, and \<open>cat_cols\<close> are its other columns.  A table is the list of its columns by
  name.  \<open>hdus\<close> are the image HDUs by name, each an array, or \<open>None\<close> where the
  entry of the file set is \<^verbatim>\<open>None\<close>; in a BLSPipe megafile (\<open>megafile\<close>) they are
  the extensions of that one file, otherwise each is the file of its name, whose first
  extension carries that name.  \<open>bls\<close> and \<open>canvas_objid\<close> are
  \<open>None\<close> when \<^verbatim>\<open>fnames['bls']\<close>, \<^verbatim>\<open>fnames['canvas']\<close> are
  \<^verbatim>\<open>None\<close>; the canvas text file has an OBJ_ID column of integers and the columns
  \<open>canvas_cols\<close>.  \<open>files\<close> are the text files \<^verbatim>\<open>os.path.isfile\<close> finds,
  each with the whitespace-separated values \<^verbatim>\<open>np.loadtxt\<close> reads from it.
  The optional entries \<^verbatim>\<open>sysrem\<close>, \<^verbatim>\<open>decorr\<close>, \<^verbatim>\<open>dilution\<close> and
  \<^verbatim>\<open>sysrem_im\<close> are absent from the file sets modelled here.
\<close>

datatype cell = Num real | NaN | Txt string

datatype ndarray = Arr (shape: "nat list") (data: "cell list")

type_synonym table = "(string \<times> cell list) list"

record bls_file =
  bls_catalogue :: table
  cand_objid :: "string list"
  cand_rank :: "int list"
  cand_cols :: table

record fnames =
  megafile :: bool
  cat_width :: nat
  cat_objid :: "string list"
  cat_cols :: table
  imagelist :: table
  hdus :: "(string \<times> ndarray option) list"
  bls :: "bls_file option"
  canvas_objid :: "int list option"
  canvas_cols :: table
  files :: "(string \<times> string list) list"

datatype backend = Pyfits | Fitsio

definition backend_of :: "string \<Rightarrow> error + backend" where
  "backend_of fitsreader =
     (if fitsreader = ''astropy'' \<or> fitsreader = ''pyfits'' then Inr Pyfits
      else if fitsreader = ''fitsio'' \<or> fitsreader = ''cfitsio'' then Inr Fitsio
      else Inl (SysExit ''\"fitsreader\" can only be \"astropy\"/\"pyfits\" or \"fitsio\"/\"cfitsio\".''))"

section \<open>Object selection\<close>

text \<open>
  An index selection is \<^verbatim>\<open>slice(None)\<close> (\<open>All\<close>) or an explicit sequence of
  integers.  Indexing a column with a sequence of integers follows NumPy: a negative
  index counts from the end, an index out of range raises IndexError.
\<close>

datatype ind_sel = All | Inds "int list"

definition py_index :: "'a list \<Rightarrow> int \<Rightarrow> error + 'a" where
  "py_index xs i =
     (if 0 \<le> i \<and> i < int (length xs) then Inr (xs ! nat i)
      else if i < 0 \<and> - int (length xs) \<le> i then Inr (xs ! nat (int (length xs) + i))
      else Inl IndexError)"

fun take_rows :: "'a list \<Rightarrow> ind_sel \<Rightarrow> error + 'a list" where
  "take_rows xs All = Inr xs"
| "take_rows xs (Inds js) = mapM (py_index xs) js"

text \<open>
  What the caller passes as \<^verbatim>\<open>obj_id\<close> or \<^verbatim>\<open>obj_row\<close>: a sequence (list,
  tuple or array) of integers, of floats or of strings, or one integer, float or string.
  Python's \<^verbatim>\<open>None\<close> is \<open>None\<close> of \<open>selector option\<close>.
\<close>

datatype selector =
    IntSeq "int list"
  | FloatSeq "real list"
  | StrSeq "string list"
  | IntVal int
  | FloatVal real
  | StrVal string

text \<open>\<^verbatim>\<open>np.atleast_1d\<close> of a list of strings: the item size is the longest length.\<close>

definition atleast_1d_str :: "string list \<Rightarrow> obj_list" where
  "atleast_1d_str xs = NdArray (max 1 (foldr (\<lambda>s m. max (length s) m) xs 0)) xs"

definition not_found_msg :: "string \<Rightarrow> string" where
  "not_found_msg obj_id = ''obj_id '' @ obj_id @ '' not found in fits file.''"

text \<open>
  \<^verbatim>\<open>get_indobjs_from_objids\<close>: \<^verbatim>\<open>np.in1d(obj_ids_all, obj_list).nonzero()[0]\<close>
  are the rows of the catalogue, in ascending order, whose trimmed identifier is one of
  the requested ones; one warning is raised for each requested identifier that no
  selected row carries.  The result is the index array, the identifiers of those rows
  and the warnings.
\<close>

definition get_indobjs_from_objids ::
  "fnames \<Rightarrow> string list \<Rightarrow> string \<Rightarrow> error + ((int list \<times> string list) \<times> string list)" where
  "get_indobjs_from_objids fn obj_list fitsreader =
     (case backend_of fitsreader of
        Inl e \<Rightarrow> Inl e
      | Inr b \<Rightarrow>
          (let obj_ids_all = map strip (cat_objid fn);
               ind_objs = filter (\<lambda>i. obj_ids_all ! i \<in> set obj_list) [0..<length obj_ids_all];
               found = map (\<lambda>i. obj_ids_all ! i) ind_objs;
               warns = map not_found_msg (filter (\<lambda>obj_id. obj_id \<notin> set found) obj_list)
           in Inr ((map int ind_objs, found), warns)))"

text \<open>
  \<^verbatim>\<open>get_objids_from_indobjs\<close>: the OBJ_ID column at the given rows, trimmed, then
  padded in place in the array read from the file.
\<close>

definition get_objids_from_indobjs :: "fnames \<Rightarrow> ind_sel \<Rightarrow> string \<Rightarrow> error + string list" where
  "get_objids_from_indobjs fn ind_objs fitsreader =
     (case backend_of fitsreader of
        Inl e \<Rightarrow> Inl e
      | Inr b \<Rightarrow>
          (case take_rows (cat_objid fn) ind_objs of
             Inl e \<Rightarrow> Inl e
           | Inr rows \<Rightarrow> Inr (items (objid_6digit (NdArray (cat_width fn) (map strip rows))))))"

definition zero_warning :: string where
  "zero_warning = ''\"indexing\" was set to \"fits\" (starts counting from 1) but \"obj_rows\" contained 0. \"indexing\" is now automatically set to \"python\" to avoid errors.''"

text \<open>
  The step shared by the inline forms of \<^verbatim>\<open>obj_row\<close>: under the \<^verbatim>\<open>'fits'\<close>
  convention a 0 among the rows switches the convention to \<^verbatim>\<open>'python'\<close> with a
  warning, otherwise every row is shifted by \<open>-1\<close>.
\<close>

definition shift_checked :: "string \<Rightarrow> int list \<Rightarrow> int list \<times> string list" where
  "shift_checked indexing ind_objs =
     (if indexing = ''fits''
      then (if 0 \<in> set ind_objs then (ind_objs, [zero_warning])
            else (map (\<lambda>x. x - 1) ind_objs, []))
      else (ind_objs, []))"

text \<open>The branch for a text file of rows has no test for 0.\<close>

definition shift_file :: "string \<Rightarrow> int list \<Rightarrow> int list" where
  "shift_file indexing ind_objs =
     (if indexing = ''fits'' then map (\<lambda>x. x - 1) ind_objs else ind_objs)"

definition rows_lookup ::
  "fnames \<Rightarrow> string \<Rightarrow> int list \<times> string list
     \<Rightarrow> error + ((ind_sel \<times> string list) \<times> string list)" where
  "rows_lookup fn fitsreader r =
     (case get_objids_from_indobjs fn (Inds (fst r)) fitsreader of
        Inl e \<Rightarrow> Inl e
      | Inr obj_ids \<Rightarrow> Inr ((Inds (fst r), obj_ids), snd r))"

definition ids_lookup ::
  "fnames \<Rightarrow> string \<Rightarrow> string list \<Rightarrow> string list
     \<Rightarrow> error + ((ind_sel \<times> string list) \<times> string list)" where
  "ids_lookup fn fitsreader warns obj_list =
     (case get_indobjs_from_objids fn obj_list fitsreader of
        Inl e \<Rightarrow> Inl e
      | Inr ((ind_objs, obj_ids), ws) \<Rightarrow> Inr ((Inds ind_objs, obj_ids), warns @ ws))"

definition not_understood :: "string \<Rightarrow> error" where
  "not_understood name = SysExit (''\"'' @ name @ ''\" data type not understood.'')"

text \<open>The branches of \<^verbatim>\<open>get_obj_inds\<close> for an \<^verbatim>\<open>obj_id\<close> input.\<close>

fun resolve_obj_ids ::
  "fnames \<Rightarrow> string \<Rightarrow> selector \<Rightarrow> error + ((ind_sel \<times> string list) \<times> string list)" where
  "resolve_obj_ids fn fitsreader (IntSeq xs) =
     (if xs = [] then Inl (not_understood ''obj_id'')
      else if \<not> list_all (\<lambda>x. 0 < x) xs then Inl (not_understood ''obj_id'')
      else ids_lookup fn fitsreader [] (items (objid_6digit (PyList (map py_str xs)))))"
| "resolve_obj_ids fn fitsreader (FloatSeq xs) =
     (if xs = [] then Inl (not_understood ''obj_id'')
      else if \<not> list_all (\<lambda>x. 0 < x) (map py_int_of_float xs) then Inl (not_understood ''obj_id'')
      else ids_lookup fn fitsreader []
             (items (objid_6digit (PyList (map (py_str \<circ> py_int_of_float) xs)))))"
| "resolve_obj_ids fn fitsreader (StrSeq xs) =
     (if xs = [] then Inl (not_understood ''obj_id'')
      else ids_lookup fn fitsreader [] (items (objid_6digit (atleast_1d_str xs))))"
| "resolve_obj_ids fn fitsreader (StrVal s) =
     (case map_of (files fn) s of
        Some toks \<Rightarrow>
          ids_lookup fn fitsreader [] (items (objid_6digit (PyList (map (take 6) toks))))
      | None \<Rightarrow>
          if s \<noteq> ''bls'' \<and> s \<noteq> ''canvas''
          then ids_lookup fn fitsreader [] (items (objid_6digit (PyList [s])))
          else if s = ''bls''
          then (case bls fn of
                  Some b \<Rightarrow>
                    (case backend_of fitsreader of
                       Inl e \<Rightarrow> Inl e
                     | Inr r \<Rightarrow> ids_lookup fn fitsreader []
                                  (sort (remdups (map strip (cand_objid b)))))
                | None \<Rightarrow>
                    ids_lookup fn fitsreader [''BLS files not found or could not be loaded.'']
                      [''bls''])
          else (case canvas_objid fn of
                  Some ns \<Rightarrow>
                    ids_lookup fn fitsreader []
                      (items (objid_6digit (NdArray 6 (map (take 6 \<circ> py_str) ns))))
                | None \<Rightarrow>
                    ids_lookup fn fitsreader
                      [''CANVAS files not found or could not be loaded.''] [''canvas'']))"
| "resolve_obj_ids fn fitsreader (IntVal n) =
     (if 0 \<le> n then ids_lookup fn fitsreader [] (items (objid_6digit (PyList [py_str n])))
      else Inl (not_understood ''obj_id''))"
| "resolve_obj_ids fn fitsreader (FloatVal x) =
     (if 0 \<le> x
      then ids_lookup fn fitsreader [] (items (objid_6digit (PyList [py_str (py_int_of_float x)])))
      else Inl (not_understood ''obj_id''))"

text \<open>
  The branches for an \<^verbatim>\<open>obj_row\<close> input.  \<^verbatim>\<open>np.loadtxt(...).tolist()\<close> of a
  file with one value is that value and not a list: the list comprehension of the
  \<^verbatim>\<open>'fits'\<close> shift, or else the element assignment of \<^verbatim>\<open>objid_6digit\<close>, then
  raises TypeError.
\<close>

fun resolve_obj_rows ::
  "fnames \<Rightarrow> string \<Rightarrow> string \<Rightarrow> selector
     \<Rightarrow> error + ((ind_sel \<times> string list) \<times> string list)" where
  "resolve_obj_rows fn indexing fitsreader (IntSeq xs) =
     (if xs = [] then Inl (not_understood ''obj_row'')
      else rows_lookup fn fitsreader (shift_checked indexing xs))"
| "resolve_obj_rows fn indexing fitsreader (FloatSeq xs) =
     (if xs = [] then Inl (not_understood ''obj_row'')
      else rows_lookup fn fitsreader (shift_checked indexing (map py_int_of_float xs)))"
| "resolve_obj_rows fn indexing fitsreader (StrSeq xs) =
     (if xs = [] then Inl (not_understood ''obj_row'')
      else (case mapM py_int_of_str xs of
              Inl e \<Rightarrow> Inl e
            | Inr js \<Rightarrow> rows_lookup fn fitsreader (shift_checked indexing js)))"
| "resolve_obj_rows fn indexing fitsreader (StrVal s) =
     (case map_of (files fn) s of
        Some toks \<Rightarrow>
          (case mapM py_int_of_str toks of
             Inl e \<Rightarrow> Inl e
           | Inr js \<Rightarrow>
               if length js = 1 then Inl TypeError
               else rows_lookup fn fitsreader (shift_file indexing js, []))
      | None \<Rightarrow>
          (case py_int_of_str s of
             Inl e \<Rightarrow> Inl e
           | Inr j \<Rightarrow> rows_lookup fn fitsreader (shift_checked indexing [j])))"
| "resolve_obj_rows fn indexing fitsreader (IntVal n) =
     rows_lookup fn fitsreader (shift_checked indexing [n])"
| "resolve_obj_rows fn indexing fitsreader (FloatVal x) =
     rows_lookup fn fitsreader (shift_checked indexing [py_int_of_float x])"

text \<open>
  The last step of \<^verbatim>\<open>get_obj_inds\<close>, taken whenever an input was given:
  \<^verbatim>\<open>ind_objs = np.sort(ind_objs)\<close> and \<^verbatim>\<open>obj_ids = np.sort(obj_ids)\<close>, each
  array sorted on its own.
\<close>

fun sort_both :: "(ind_sel \<times> string list) \<times> string list \<Rightarrow> (ind_sel \<times> string list) \<times> string list" where
  "sort_both ((Inds js, obj_ids), ws) = ((Inds (sort js), sort obj_ids), ws)"
| "sort_both ((All, obj_ids), ws) = ((All, sort obj_ids), ws)"

definition get_obj_inds ::
  "fnames \<Rightarrow> selector option \<Rightarrow> selector option \<Rightarrow> string \<Rightarrow> string
     \<Rightarrow> error + ((ind_sel \<times> string list) \<times> string list)" where
  "get_obj_inds fn obj_ids obj_rows indexing fitsreader =
     (case (obj_ids, obj_rows) of
        (None, None) \<Rightarrow>
          (case get_objids_from_indobjs fn All fitsreader of
             Inl e \<Rightarrow> Inl e
           | Inr ids \<Rightarrow> Inr ((All, ids), []))
      | (Some sel, None) \<Rightarrow> map_sum id sort_both (resolve_obj_ids fn fitsreader sel)
      | (None, Some sel) \<Rightarrow> map_sum id sort_both (resolve_obj_rows fn indexing fitsreader sel)
      | (Some a, Some b) \<Rightarrow> Inl (SysExit ''Only use either \"obj_id\" or \"obj_row\".''))"

section \<open>The catalogue's identifiers as the two lookups read them\<close>

text \<open>
  \<^verbatim>\<open>get_indobjs_from_objids\<close> compares the trimmed OBJ_ID column;
  \<^verbatim>\<open>get_objids_from_indobjs\<close> returns the trimmed column after
  \<^verbatim>\<open>objid_6digit\<close>.  The catalogue is stored in identifier order when both
  readings of the column are ascending (they are the same list when every identifier
  already has six characters).
\<close>

definition trimmed_ids :: "fnames \<Rightarrow> string list" where
  "trimmed_ids fn = map strip (cat_objid fn)"

definition row_ids :: "fnames \<Rightarrow> string list" where
  "row_ids fn = items (objid_6digit (NdArray (cat_width fn) (map strip (cat_objid fn))))"

definition catalogue_sorted :: "fnames \<Rightarrow> bool" where
  "catalogue_sorted fn = (sorted (trimmed_ids fn) \<and> sorted (row_ids fn))"

fun inds_of :: "ind_sel \<Rightarrow> int list" where
  "inds_of All = []"
| "inds_of (Inds js) = js"

text \<open>The rows of the catalogue whose trimmed identifier lies in a set.\<close>

definition match_rows :: "fnames \<Rightarrow> string set \<Rightarrow> nat list" where
  "match_rows fn S = filter (\<lambda>i. trimmed_ids fn ! i \<in> S) [0..<length (trimmed_ids fn)]"

section \<open>Result dictionaries\<close>

text \<open>
  A result dictionary maps a key to a NumPy array, given by its shape and its cells in
  row-major order.  The dictionary is an association list with one entry per key;
  \<^verbatim>\<open>dic[key] = v\<close> is \<open>AList.update\<close>, \<^verbatim>\<open>del dic[key]\<close> is
  \<open>AList.delete\<close>, \<^verbatim>\<open>key in dic\<close> asks whether \<open>map_of\<close> finds the key.
\<close>

type_synonym dict = "(string \<times> ndarray) list"

definition lookup :: "dict \<Rightarrow> string \<Rightarrow> error + ndarray" where
  "lookup dic key = (case map_of dic key of None \<Rightarrow> Inl (KeyError key) | Some a \<Rightarrow> Inr a)"

text \<open>\<^verbatim>\<open>key in dic\<close>.\<close>

definition has_key :: "dict \<Rightarrow> string \<Rightarrow> bool" where
  "has_key dic key = (map_of dic key \<noteq> None)"

text \<open>An array is well formed when it has as many cells as its shape says.\<close>

definition wf_array :: "ndarray \<Rightarrow> bool" where
  "wf_array a = (length (data a) = prod_list (shape a))"

section \<open>Dimensional simplification: \<^verbatim>\<open>simplify_dic\<close>\<close>

text \<open>\<^verbatim>\<open>value[0]\<close>: the first block along the leading axis.\<close>

definition first_along_axis0 :: "ndarray \<Rightarrow> ndarray" where
  "first_along_axis0 a = Arr (tl (shape a)) (take (prod_list (tl (shape a))) (data a))"

text \<open>\<^verbatim>\<open>value[:,0]\<close>: of every block along the leading axis, its first sub-block.\<close>

definition first_along_axis1 :: "ndarray \<Rightarrow> ndarray" where
  "first_along_axis1 a =
     (let n = shape a ! 0; m = shape a ! 1; rest = drop 2 (shape a); b = prod_list rest
      in Arr (n # rest) (concat (map (\<lambda>i. take b (drop (i * m * b) (data a))) [0..<n])))"

text \<open>
  The body of the loop of \<^verbatim>\<open>simplify_dic\<close> for one value.  \<^verbatim>\<open>value.shape[0]\<close>
  of a zero-dimensional array raises IndexError.
\<close>

definition simplify_value :: "ndarray \<Rightarrow> error + ndarray" where
  "simplify_value v =
     (if shape v = [] then Inl IndexError
      else if shape v ! 0 = 1 then Inr (first_along_axis0 v)
      else if length (shape v) > 1 \<and> shape v ! 1 = 1 then Inr (first_along_axis1 v)
      else Inr v)"

definition simplify_dic :: "dict \<Rightarrow> error + dict" where
  "simplify_dic dic = mapM (\<lambda>(key, v). map_sum id (Pair key) (simplify_value v)) dic"

section \<open>Flag-driven invalidation: \<^verbatim>\<open>set_nan_dic\<close>\<close>

text \<open>Row-major positions and index tuples of an array of a given shape.\<close>

fun unravel :: "nat list \<Rightarrow> nat \<Rightarrow> nat list" where
  "unravel [] p = []"
| "unravel (n # s) p = (p div prod_list s) # unravel s (p mod prod_list s)"

fun ravel :: "nat list \<Rightarrow> nat list \<Rightarrow> nat" where
  "ravel (n # s) (i # js) = i * prod_list s + ravel s js"
| "ravel s js = 0"

text \<open>The test \<^verbatim>\<open>dic['FLAGS'] > 0\<close> on one cell; a NaN compares false.\<close>

fun positive :: "cell \<Rightarrow> bool" where
  "positive (Num x) = (0 < x)"
| "positive NaN = False"
| "positive (Txt s) = False"

text \<open>
  \<^verbatim>\<open>np.where(a > 0)\<close>: the index tuples of the positive cells, in row-major order
  (NumPy treats a zero-dimensional array as one of shape \<open>(1)\<close> here).
\<close>

definition np_where_positive :: "ndarray \<Rightarrow> nat list list" where
  "np_where_positive a =
     map (unravel (if shape a = [] then [1] else shape a))
       (filter (\<lambda>p. positive (data a ! p)) [0..<length (data a)])"

text \<open>
  \<^verbatim>\<open>a[ind] = np.nan\<close> for a tuple \<open>ind\<close> of \<open>d\<close> index arrays, given as the list
  of index tuples: more index arrays than axes, or an index beyond its axis, raise
  IndexError; otherwise every indexed cell (or block, when \<open>a\<close> has more axes)
  becomes NaN.  The array is changed in place, so the dictionary holds the new cells.
\<close>

definition in_bounds :: "nat list \<Rightarrow> nat list \<Rightarrow> bool" where
  "in_bounds s m = list_all2 (\<lambda>i n. i < n) m (take (length m) s)"

definition nan_blocks :: "nat \<Rightarrow> nat list \<Rightarrow> cell list \<Rightarrow> cell list" where
  "nan_blocks b offs xs =
     map (\<lambda>(q, x). if q div b \<in> set offs then NaN else x) (zip [0..<length xs] xs)"

definition set_nan_at :: "nat \<Rightarrow> nat list list \<Rightarrow> ndarray \<Rightarrow> error + ndarray" where
  "set_nan_at d ind a =
     (if length (shape a) < d then Inl IndexError
      else if \<not> list_all (in_bounds (shape a)) ind then Inl IndexError
      else Inr (Arr (shape a)
             (nan_blocks (prod_list (drop d (shape a)))
                (map (ravel (take d (shape a))) ind) (data a))))"

definition nan_keys :: "string list" where
  "nan_keys =
     [''FLUX'', ''FLUX_ERR'', ''FLUX3'', ''FLUX3_ERR'',
      ''FLUX4'', ''FLUX4_ERR'', ''FLUX5'', ''FLUX5_ERR'',
      ''SYSREM_FLUX3'', ''SYSREM_FLUX3_ERR'',
      ''DECORR_FLUX3'', ''DECORR_FLUX3_ERR'',
      ''CCDX'', ''CCDX_ERR'', ''CCDY'', ''CCDY_ERR'',
      ''CENTDX'', ''CENTDX_ERR'', ''CENTDY'', ''CENTDY_ERR'']"

text \<open>
  \<^verbatim>\<open>for key in [...]: if key in dic: dic[key][...] = np.nan\<close>, with the
  assignment as a parameter.
\<close>

fun for_keys :: "(ndarray \<Rightarrow> error + ndarray) \<Rightarrow> string list \<Rightarrow> dict \<Rightarrow> error + dict" where
  "for_keys f [] dic = Inr dic"
| "for_keys f (key # keys) dic =
     (case map_of dic key of
        None \<Rightarrow> for_keys f keys dic
      | Some a \<Rightarrow>
          (case f a of
             Inl e \<Rightarrow> Inl e
           | Inr a' \<Rightarrow> for_keys f keys (AList.update key a' dic)))"

definition set_nan_single :: "dict \<Rightarrow> error + dict" where
  "set_nan_single dic =
     (case lookup dic ''FLAGS'' of
        Inl e \<Rightarrow> Inl e
      | Inr flags \<Rightarrow>
          for_keys (set_nan_at (max 1 (length (shape flags))) (np_where_positive flags))
            nan_keys dic)"

text \<open>
  \<^verbatim>\<open>dic['FLAGS'][obj_nr]\<close>, and \<^verbatim>\<open>dic[key][obj_nr, ind_broken] = np.nan\<close>:
  the tuple \<open>ind_broken\<close> of index arrays is read as one array of indices, all of them
  into the second axis.
\<close>

definition row_of :: "ndarray \<Rightarrow> nat \<Rightarrow> ndarray" where
  "row_of a i =
     (let b = prod_list (tl (shape a)) in Arr (tl (shape a)) (take b (drop (i * b) (data a))))"

definition set_nan_row :: "nat \<Rightarrow> nat list \<Rightarrow> ndarray \<Rightarrow> error + ndarray" where
  "set_nan_row obj_nr cols a =
     (if length (shape a) < 2 then Inl IndexError
      else if \<not> obj_nr < shape a ! 0 then Inl IndexError
      else if \<not> list_all (\<lambda>j. j < shape a ! 1) cols then Inl IndexError
      else Inr (Arr (shape a)
             (nan_blocks (prod_list (drop 2 (shape a)))
                (map (\<lambda>j. obj_nr * (shape a ! 1) + j) cols) (data a))))"

fun for_objects :: "ndarray \<Rightarrow> nat list \<Rightarrow> dict \<Rightarrow> error + dict" where
  "for_objects flags [] dic = Inr dic"
| "for_objects flags (obj_nr # rest) dic =
     (case for_keys (set_nan_row obj_nr (concat (np_where_positive (row_of flags obj_nr))))
             nan_keys dic of
        Inl e \<Rightarrow> Inl e
      | Inr dic' \<Rightarrow> for_objects flags rest dic')"

definition set_nan_multi :: "dict \<Rightarrow> error + dict" where
  "set_nan_multi dic =
     (case lookup dic ''FLAGS'' of
        Inl e \<Rightarrow> Inl e
      | Inr flags \<Rightarrow>
          if shape flags = [] then Inl IndexError
          else for_objects flags [0..<shape flags ! 0] dic)"

text \<open>\<^verbatim>\<open>len(dic['OBJ_ID'])\<close> of a zero-dimensional array raises TypeError.\<close>

definition set_nan_dic :: "dict \<Rightarrow> error + dict" where
  "set_nan_dic dic =
     (case lookup dic ''OBJ_ID'' of
        Inl e \<Rightarrow> Inl e
      | Inr obj_id \<Rightarrow>
          if shape obj_id = [] then Inl TypeError
          else if shape obj_id ! 0 = 1 then set_nan_single dic
          else if shape obj_id ! 0 > 1 then set_nan_multi dic
          else Inr dic)"

text \<open>What the invalidation is meant to leave in a field: NaN under every positive flag.\<close>

definition masked :: "cell list \<Rightarrow> cell list \<Rightarrow> cell list" where
  "masked flags xs = map (\<lambda>(f, x). if positive f then NaN else x) (zip flags xs)"

text \<open>The flags of the rows in \<open>R\<close> of a matrix with \<open>m\<close> columns, zero elsewhere.\<close>

definition restrict_rows :: "nat \<Rightarrow> nat set \<Rightarrow> cell list \<Rightarrow> cell list" where
  "restrict_rows m R flags =
     map (\<lambda>(q, f). if q div m \<in> R then f else Num 0) (zip [0..<length flags] flags)"

section \<open>Range expansion\<close>

text \<open>\<^verbatim>\<open>s.split(':')\<close>.\<close>

fun split_on :: "char \<Rightarrow> string \<Rightarrow> string list" where
  "split_on c [] = [[]]"
| "split_on c (x # xs) =
     (if x = c then [] # split_on c xs
      else (case split_on c xs of
              [] \<Rightarrow> [[x]]
            | p # ps \<Rightarrow> (x # p) # ps))"

text \<open>
  \<^verbatim>\<open>solve_range\<close>: the unpacking \<^verbatim>\<open>start_date, end_date = ...\<close> raises unless
  the split has exactly two parts, and the bare \<^verbatim>\<open>except\<close> turns that into
  \<^verbatim>\<open>sys.exit\<close>.
\<close>

definition solve_range :: "string \<Rightarrow> error + string \<times> string" where
  "solve_range date_range =
     (case split_on (CHR '':'') date_range of
        [start_date, end_date] \<Rightarrow> Inr (start_date, end_date)
      | _ \<Rightarrow> Inl (SysExit ''\"time_date\" data type not understood.''))"


subsection \<open>The datetime library\<close>

text \<open>
  A \<^verbatim>\<open>datetime\<close> at midnight is given by its proleptic Gregorian ordinal (day 1 is
  0001-01-01), which is how the library compares dates and adds a \<^verbatim>\<open>timedelta\<close>.
  The conversions between ordinals and year, month, day follow the library's own
  arithmetic.
\<close>

definition is_leap :: "nat \<Rightarrow> bool" where
  "is_leap y = (y mod 4 = 0 \<and> (y mod 100 \<noteq> 0 \<or> y mod 400 = 0))"

definition days_in_month :: "nat \<Rightarrow> nat \<Rightarrow> nat" where
  "days_in_month y m =
     (if m = 2 then (if is_leap y then 29 else 28)
      else [31, 28, 31, 30, 31, 30, 31, 31, 30, 31, 30, 31] ! (m - 1))"

definition days_before_month :: "nat \<Rightarrow> nat \<Rightarrow> nat" where
  "days_before_month y m =
     [0, 31, 59, 90, 120, 151, 181, 212, 243, 273, 304, 334] ! (m - 1)
       + (if 2 < m \<and> is_leap y then 1 else 0)"

definition days_before_year :: "nat \<Rightarrow> nat" where
  "days_before_year y = (y - 1) * 365 + (y - 1) div 4 - (y - 1) div 100 + (y - 1) div 400"

definition ymd2ord :: "nat \<Rightarrow> nat \<Rightarrow> nat \<Rightarrow> nat" where
  "ymd2ord y m d = days_before_year y + days_before_month y m + d"

definition ord2ymd :: "nat \<Rightarrow> nat \<times> nat \<times> nat" where
  "ord2ymd ordinal =
     (let n = ordinal - 1;
          n400 = n div 146097; n = n mod 146097;
          n100 = n div 36524; n = n mod 36524;
          n4 = n div 1461; n = n mod 1461;
          n1 = n div 365; n = n mod 365;
          year = n400 * 400 + 1 + n100 * 100 + n4 * 4 + n1
      in if n1 = 4 \<or> n100 = 4 then (year - 1, 12, 31)
         else
           (let leapyear = (n1 = 3 \<and> (n4 \<noteq> 24 \<or> n100 = 3));
                month = (n + 50) div 32;
                preceding = [0, 31, 59, 90, 120, 151, 181, 212, 243, 273, 304, 334] ! (month - 1)
                              + (if 2 < month \<and> leapyear then 1 else 0)
            in if n < preceding
               then (let month' = month - 1;
                         preceding' = preceding
                           - ([31, 28, 31, 30, 31, 30, 31, 31, 30, 31, 30, 31] ! (month' - 1)
                              + (if month' = 2 \<and> leapyear then 1 else 0))
                     in (year, month', n - preceding' + 1))
               else (year, month, n - preceding + 1)))"

text \<open>
  \<^verbatim>\<open>strptime\<close> with the formats \<^verbatim>\<open>'%Y%m%d'\<close> and \<^verbatim>\<open>'%Y-%m-%d'\<close> on strings of
  8 and of 10 characters: four digits of a year from 1 on, two digits of a month, and a
  day of two digits or of a blank and a digit; a date the calendar does not have, and
  any other string, raise ValueError.
\<close>

definition parse_year :: "string \<Rightarrow> nat option" where
  "parse_year ys = (if list_all is_digit ys \<and> 1 \<le> nat_of_digits ys then Some (nat_of_digits ys) else None)"

definition parse_month :: "char \<Rightarrow> char \<Rightarrow> nat option" where
  "parse_month a b =
     (if is_digit a \<and> is_digit b \<and> 1 \<le> nat_of_digits [a, b] \<and> nat_of_digits [a, b] \<le> 12
      then Some (nat_of_digits [a, b]) else None)"

definition parse_day :: "char \<Rightarrow> char \<Rightarrow> nat option" where
  "parse_day a b =
     (if is_digit a \<and> is_digit b \<and> 1 \<le> nat_of_digits [a, b] \<and> nat_of_digits [a, b] \<le> 31
      then Some (nat_of_digits [a, b])
      else if a = CHR '' '' \<and> is_digit b \<and> b \<noteq> CHR ''0'' then Some (digit_val b)
      else None)"

definition make_datetime :: "nat option \<Rightarrow> nat option \<Rightarrow> nat option \<Rightarrow> error + nat" where
  "make_datetime yo mo do =
     (case (yo, mo, do) of
        (Some y, Some m, Some d) \<Rightarrow>
          if d \<le> days_in_month y m then Inr (ymd2ord y m d) else Inl ValueError
      | _ \<Rightarrow> Inl ValueError)"

definition strptime_compact :: "string \<Rightarrow> error + nat" where
  "strptime_compact s =
     (case s of
        [y1, y2, y3, y4, m1, m2, d1, d2] \<Rightarrow>
          make_datetime (parse_year [y1, y2, y3, y4]) (parse_month m1 m2) (parse_day d1 d2)
      | _ \<Rightarrow> Inl ValueError)"

definition strptime_dashed :: "string \<Rightarrow> error + nat" where
  "strptime_dashed s =
     (case s of
        [y1, y2, y3, y4, h1, m1, m2, h2, d1, d2] \<Rightarrow>
          if h1 = CHR ''-'' \<and> h2 = CHR ''-''
          then make_datetime (parse_year [y1, y2, y3, y4]) (parse_month m1 m2) (parse_day d1 d2)
          else Inl ValueError
      | _ \<Rightarrow> Inl ValueError)"

text \<open>
  \<^verbatim>\<open>strftime("%Y-%m-%d")\<close>.  The interpreter this program runs on (it uses
  \<^verbatim>\<open>unicode\<close> and list-valued \<^verbatim>\<open>map\<close>) refuses to format a year before 1900
  with ValueError.
\<close>

definition two_digits :: "nat \<Rightarrow> string" where
  "two_digits n = [digit_char (n div 10), digit_char (n mod 10)]"

definition strftime :: "nat \<Rightarrow> error + string" where
  "strftime ordinal =
     (case ord2ymd ordinal of
        (y, m, d) \<Rightarrow>
          if y < 1900 then Inl ValueError
          else Inr (str_nat y @ ''-'' @ two_digits m @ ''-'' @ two_digits d))"

subsection \<open>Date ranges\<close>

text \<open>
  What \<^verbatim>\<open>format_date\<close> leaves in \<^verbatim>\<open>start_date\<close> and \<^verbatim>\<open>end_date\<close>: a
  \<^verbatim>\<open>datetime\<close>, or the string itself when its length is neither 8 nor 10.  For a
  start of length 10 the result of \<^verbatim>\<open>start_date.replace('/','-')\<close> is dropped, so
  the string is parsed as it is; for an end of length 10 the replaced string is parsed.
\<close>

datatype pydate = DateTime nat | RawStr string

definition replace_slash :: "string \<Rightarrow> string" where
  "replace_slash s = map (\<lambda>c. if c = CHR ''/'' then CHR ''-'' else c) s"

definition format_start :: "string \<Rightarrow> error + pydate" where
  "format_start start_date =
     (if length start_date = 8 then map_sum id DateTime (strptime_compact start_date)
      else if length start_date = 10 then map_sum id DateTime (strptime_dashed start_date)
      else Inr (RawStr start_date))"

definition format_end :: "string \<Rightarrow> error + pydate" where
  "format_end end_date =
     (if length end_date = 8 then map_sum id DateTime (strptime_compact end_date)
      else if length end_date = 10
      then map_sum id DateTime (strptime_dashed (replace_slash end_date))
      else Inr (RawStr end_date))"

definition format_date :: "string \<Rightarrow> string \<Rightarrow> error + pydate \<times> pydate" where
  "format_date start_date end_date =
     (case format_start start_date of
        Inl e \<Rightarrow> Inl e
      | Inr s \<Rightarrow> (case format_end end_date of Inl e \<Rightarrow> Inl e | Inr e \<Rightarrow> Inr (s, e)))"

text \<open>\<^verbatim>\<open>perdelta\<close> with a step of one day: the loop \<^verbatim>\<open>while curr < end\<close>.\<close>

function perdelta :: "nat \<Rightarrow> nat \<Rightarrow> nat list" where
  "perdelta cur end_day = (if cur < end_day then cur # perdelta (cur + 1) end_day else [])"
  by pat_completeness auto
termination
  by (relation "measure (\<lambda>(cur, end_day). end_day - cur)") auto

declare perdelta.simps [simp del]

text \<open>
  \<^verbatim>\<open>get_time_date_from_range\<close>.  Comparing a \<^verbatim>\<open>datetime\<close> with a string raises
  TypeError; two strings compare as strings, and the first one the loop yields has no
  \<^verbatim>\<open>strftime\<close>.
\<close>

definition get_time_date_from_range :: "string \<Rightarrow> error + string list" where
  "get_time_date_from_range date_range =
     (case solve_range date_range of
        Inl e \<Rightarrow> Inl e
      | Inr (s, e) \<Rightarrow>
          (case format_date s e of
             Inl err \<Rightarrow> Inl err
           | Inr (DateTime a, DateTime b) \<Rightarrow> mapM strftime (perdelta a b)
           | Inr (RawStr a, RawStr b) \<Rightarrow> if a < b then Inl AttributeError else Inr []
           | Inr (DateTime a, RawStr b) \<Rightarrow> Inl TypeError
           | Inr (RawStr a, DateTime b) \<Rightarrow> Inl TypeError))"


section \<open>The two readers\<close>

text \<open>\<^verbatim>\<open>np.intersect1d(names, keys)\<close>: the common names, sorted, each once.\<close>

definition intersect1d :: "string list \<Rightarrow> string list \<Rightarrow> string list" where
  "intersect1d names keys = sort (remdups (filter (\<lambda>name. name \<in> set keys) names))"

definition catalogue_table :: "fnames \<Rightarrow> table" where
  "catalogue_table fn = (''OBJ_ID'', map Txt (cat_objid fn)) # cat_cols fn"

definition candidates_table :: "bls_file \<Rightarrow> table" where
  "candidates_table b =
     (''OBJ_ID'', map Txt (cand_objid b)) # (''RANK'', map (\<lambda>r. Num (real_of_int r)) (cand_rank b))
       # cand_cols b"

definition column_array :: "cell list \<Rightarrow> ndarray" where
  "column_array cells = Arr [length cells] cells"

text \<open>
  \<^verbatim>\<open>for key in subkeys: dic[key] = hdu[key][ind]\<close>: the columns of a table at the
  selected rows.  The rows a reader is asked for are returned in the order asked.
\<close>

fun read_columns :: "table \<Rightarrow> ind_sel \<Rightarrow> string list \<Rightarrow> dict \<Rightarrow> error + dict" where
  "read_columns t sel [] dic = Inr dic"
| "read_columns t sel (key # keys) dic =
     (case map_of t key of
        None \<Rightarrow> Inl (KeyError key)
      | Some col \<Rightarrow>
          (case take_rows col sel of
             Inl e \<Rightarrow> Inl e
           | Inr cells \<Rightarrow> read_columns t sel keys (AList.update key (column_array cells) dic)))"

text \<open>
  Selections along the first and the second axis of an image:
  \<^verbatim>\<open>data[ind_objs]\<close> and \<^verbatim>\<open>[:, ind_time]\<close>.
\<close>

definition axis_indices :: "nat \<Rightarrow> ind_sel \<Rightarrow> error + nat list" where
  "axis_indices n sel = take_rows [0..<n] sel"

definition select_axis0 :: "ndarray \<Rightarrow> ind_sel \<Rightarrow> error + ndarray" where
  "select_axis0 a sel =
     (case shape a of
        [] \<Rightarrow> Inl IndexError
      | n # rest \<Rightarrow>
          (case axis_indices n sel of
             Inl e \<Rightarrow> Inl e
           | Inr rows \<Rightarrow>
               Inr (Arr (length rows # rest)
                      (concat (map (\<lambda>r. take (prod_list rest) (drop (r * prod_list rest) (data a)))
                                 rows)))))"

definition select_axis1 :: "ndarray \<Rightarrow> ind_sel \<Rightarrow> error + ndarray" where
  "select_axis1 a sel =
     (case shape a of
        n # m # rest \<Rightarrow>
          (case axis_indices m sel of
             Inl e \<Rightarrow> Inl e
           | Inr cols \<Rightarrow>
               Inr (Arr (n # length cols # rest)
                      (concat (map (\<lambda>r.
                         concat (map (\<lambda>c. take (prod_list rest)
                                   (drop ((r * m + c) * prod_list rest) (data a))) cols))
                         [0..<n]))))
      | _ \<Rightarrow> Inl IndexError)"

text \<open>
  The unit corrections \<^verbatim>\<open>(dic[key] + bzero) / precision\<close> with the default
  \<^verbatim>\<open>CCD_bzero=0., CCD_precision=32., CENTD_bzero=0., CENTD_precision=1024.\<close>
\<close>

fun scale_cell :: "real \<Rightarrow> cell \<Rightarrow> error + cell" where
  "scale_cell p (Num x) = Inr (Num ((x + 0) / p))"
| "scale_cell p NaN = Inr NaN"
| "scale_cell p (Txt s) = Inl TypeError"

definition rescale :: "string \<Rightarrow> ndarray \<Rightarrow> error + ndarray" where
  "rescale key a =
     (if key \<in> set [''CCDX'', ''CCDY'']
      then map_sum id (Arr (shape a)) (mapM (scale_cell 32) (data a))
      else if key \<in> set [''CENTDX'', ''CENTDX_ERR'', ''CENTDY'', ''CENTDY_ERR'']
      then map_sum id (Arr (shape a)) (mapM (scale_cell 1024) (data a))
      else Inr a)"

subsection \<open>\<^verbatim>\<open>pyfits_get_data\<close>\<close>

text \<open>
  The image stage: in a megafile the extensions are visited in file order and read
  when their name is a key; otherwise the keys are visited and each key with an entry
  in the file set is read (opening an entry that is \<^verbatim>\<open>None\<close> raises ValueError).
\<close>

definition pyfits_image :: "ndarray option \<Rightarrow> string \<Rightarrow> ind_sel \<Rightarrow> ind_sel \<Rightarrow> error + ndarray" where
  "pyfits_image entry key ind_objs ind_time =
     (case entry of
        None \<Rightarrow> Inl ValueError
      | Some img \<Rightarrow>
          (case select_axis0 img ind_objs of
             Inl e \<Rightarrow> Inl e
           | Inr a \<Rightarrow>
               (case select_axis1 a ind_time of
                  Inl e \<Rightarrow> Inl e
                | Inr b \<Rightarrow> rescale key b)))"

fun pyfits_images ::
  "fnames \<Rightarrow> ind_sel \<Rightarrow> ind_sel \<Rightarrow> string list \<Rightarrow> dict \<Rightarrow> error + dict" where
  "pyfits_images fn ind_objs ind_time [] dic = Inr dic"
| "pyfits_images fn ind_objs ind_time (key # keys) dic =
     (case map_of (hdus fn) key of
        None \<Rightarrow> pyfits_images fn ind_objs ind_time keys dic
      | Some entry \<Rightarrow>
          (case pyfits_image entry key ind_objs ind_time of
             Inl e \<Rightarrow> Inl e
           | Inr a \<Rightarrow> pyfits_images fn ind_objs ind_time keys (AList.update key a dic)))"

definition image_keys :: "fnames \<Rightarrow> string list \<Rightarrow> string list" where
  "image_keys fn keys =
     (if megafile fn then filter (\<lambda>hdukey. hdukey \<in> set keys) (map fst (hdus fn)) else keys)"

text \<open>
  The rows of the CANDIDATES table of the requested objects and of the requested rank:
  \<^verbatim>\<open>np.intersect1d(ind_objs_bls, ind_rank1)\<close>.
\<close>

definition candidate_rows :: "bls_file \<Rightarrow> string list \<Rightarrow> int \<Rightarrow> nat list" where
  "candidate_rows b obj_ids bls_rank =
     filter (\<lambda>i. strip (cand_objid b ! i) \<in> set obj_ids \<and> i < length (cand_rank b) \<and>
                cand_rank b ! i = bls_rank)
       [0..<length (cand_objid b)]"

text \<open>
  The cross-match \<^verbatim>\<open>for i, singleobj_id in enumerate(obj_ids): ...\<close> into an array
  of \<open>n\<close> NaN: an object with one candidate row gets its value, an object with more
  than one row cannot be stored in one element (ValueError), and an object beyond the
  end of the array raises IndexError.
\<close>

fun cross_match ::
  "string list \<Rightarrow> cell list \<Rightarrow> (nat \<times> string) list \<Rightarrow> cell list \<Rightarrow> error + cell list" where
  "cross_match bls_ids bls_data [] acc = Inr acc"
| "cross_match bls_ids bls_data ((i, singleobj_id) # rest) acc =
     (let i_bls = filter (\<lambda>j. bls_ids ! j = singleobj_id) [0..<length bls_ids]
      in if i_bls = [] then cross_match bls_ids bls_data rest acc
         else if \<not> i < length acc then Inl IndexError
         else if length i_bls \<noteq> 1 then Inl ValueError
         else cross_match bls_ids bls_data rest (acc[i := bls_data ! hd i_bls]))"

fun matched_columns ::
  "table \<Rightarrow> nat list \<Rightarrow> string list \<Rightarrow> string list \<Rightarrow> nat \<Rightarrow> string list \<Rightarrow> dict
     \<Rightarrow> error + dict" where
  "matched_columns t rows bls_ids obj_ids n [] dic = Inr dic"
| "matched_columns t rows bls_ids obj_ids n (key # keys) dic =
     (case map_of t key of
        None \<Rightarrow> Inl (KeyError key)
      | Some col \<Rightarrow>
          (case cross_match bls_ids (map (\<lambda>i. col ! i) rows)
                  (zip [0..<length obj_ids] obj_ids) (replicate n NaN) of
             Inl e \<Rightarrow> Inl e
           | Inr cells \<Rightarrow>
               matched_columns t rows bls_ids obj_ids n keys
                 (AList.update key (column_array cells) dic)))"

text \<open>\<^verbatim>\<open>for key in subkeys: dic[key] = ...\<close> with one placeholder for every key.\<close>

definition placeholders :: "cell \<Rightarrow> nat \<Rightarrow> string list \<Rightarrow> dict \<Rightarrow> dict" where
  "placeholders c n subkeys dic =
     foldl (\<lambda>d key. AList.update key (column_array (replicate n c)) d) dic subkeys"

text \<open>
  The CATALOGUE and CANDIDATES stages of the BLS file in \<^verbatim>\<open>pyfits_get_data\<close>.
  When no candidate row matches, every requested candidate field is
  \<^verbatim>\<open>np.zeros( N_objs )\<close>.
\<close>

definition pyfits_bls ::
  "bls_file \<Rightarrow> string list \<Rightarrow> ind_sel \<Rightarrow> string list \<Rightarrow> int \<Rightarrow> dict \<Rightarrow> error + dict" where
  "pyfits_bls b obj_ids ind_objs keys bls_rank dic =
     (let ind_objs_bls = candidate_rows b obj_ids bls_rank
      in case read_columns (bls_catalogue b) ind_objs
                (filter (\<lambda>key. key \<noteq> ''OBJ_ID'') (intersect1d (map fst (bls_catalogue b)) keys))
                dic of
           Inl e \<Rightarrow> Inl e
         | Inr dic1 \<Rightarrow>
             (case lookup dic1 ''OBJ_ID'' of
                Inl e \<Rightarrow> Inl e
              | Inr obj_id \<Rightarrow>
                  if shape obj_id = [] then Inl TypeError
                  else
                    (let n_objs = shape obj_id ! 0;
                         subkeys = filter (\<lambda>key. key \<notin> set [''OBJ_ID'', ''FLAGS'', ''SIGMA_XS''])
                                     (intersect1d (map fst (candidates_table b)) keys)
                     in if subkeys = [] then Inr dic1
                        else if ind_objs_bls \<noteq> []
                        then matched_columns (candidates_table b) ind_objs_bls
                               (map (\<lambda>i. strip (cand_objid b ! i)) ind_objs_bls)
                               obj_ids n_objs subkeys dic1
                        else Inr (placeholders (Num 0) n_objs subkeys dic1))))"

definition pyfits_get_data ::
  "fnames \<Rightarrow> string list \<Rightarrow> ind_sel \<Rightarrow> string list \<Rightarrow> int \<Rightarrow> ind_sel \<Rightarrow> error + dict" where
  "pyfits_get_data fn obj_ids ind_objs keys bls_rank ind_time =
     (case read_columns (catalogue_table fn) ind_objs
             (intersect1d (map fst (catalogue_table fn)) keys) [] of
        Inl e \<Rightarrow> Inl e
      | Inr dic1 \<Rightarrow>
          (case read_columns (imagelist fn) ind_time
                  (intersect1d (map fst (imagelist fn)) keys) dic1 of
             Inl e \<Rightarrow> Inl e
           | Inr dic2 \<Rightarrow>
               (case pyfits_images fn ind_objs ind_time (image_keys fn keys) dic2 of
                  Inl e \<Rightarrow> Inl e
                | Inr dic3 \<Rightarrow>
                    (case bls fn of
                       None \<Rightarrow> Inr dic3
                     | Some b \<Rightarrow> pyfits_bls b obj_ids ind_objs keys bls_rank dic3))))"

subsection \<open>\<^verbatim>\<open>fitsio_get_data\<close>\<close>

text \<open>
  \<^verbatim>\<open>fitsio\<close> takes no slice for the rows of a table:
  \<^verbatim>\<open>slice(None)\<close> becomes \<^verbatim>\<open>range(N)\<close> with the number of rows of the table.
\<close>

fun explicit_rows :: "nat \<Rightarrow> ind_sel \<Rightarrow> int list" where
  "explicit_rows n All = map int [0..<n]"
| "explicit_rows n (Inds js) = js"

definition nrows :: "table \<Rightarrow> nat" where
  "nrows t = (case t of [] \<Rightarrow> 0 | (name, col) # rest \<Rightarrow> length col)"

text \<open>
  The positions a slice \<^verbatim>\<open>slice(start, stop)\<close> selects on an axis of length
  \<open>n\<close>; the image slices of the reader are read as NumPy reads slices.
\<close>

definition py_slice :: "nat \<Rightarrow> int \<Rightarrow> int \<Rightarrow> nat list" where
  "py_slice n start stop =
     (let norm = (\<lambda>i. if i < 0 then max 0 (int n + i) else min i (int n))
      in [nat (norm start)..<nat (norm stop)])"

text \<open>
  One object of the loop \<^verbatim>\<open>for i, ind_singleobj in enumerate(ind_objs)\<close>: the
  window \<^verbatim>\<open>[slice(o, o+1), slice(ind_time[0], ind_time[-1]+1)]\<close>, cut down to the
  wanted times when the window has another width, and stored in one row of
  \<^verbatim>\<open>dic[key]\<close>, which needs exactly one row.
\<close>

definition window_columns :: "nat \<Rightarrow> int list \<Rightarrow> error + nat list" where
  "window_columns m ind_time =
     (if ind_time = [] then Inl IndexError
      else (let cols = py_slice m (hd ind_time) (last ind_time + 1)
            in if length cols \<noteq> length ind_time
               then mapM (py_index cols) (map (\<lambda>x. x - hd ind_time) ind_time)
               else Inr cols))"

definition fitsio_row :: "ndarray \<Rightarrow> int list \<Rightarrow> int \<Rightarrow> error + cell list" where
  "fitsio_row img ind_time ind_singleobj =
     (case shape img of
        [n, m] \<Rightarrow>
          (case window_columns m ind_time of
             Inl e \<Rightarrow> Inl e
           | Inr cols \<Rightarrow>
               (case py_slice n ind_singleobj (ind_singleobj + 1) of
                  [r] \<Rightarrow> Inr (map (\<lambda>c. data img ! (r * m + c)) cols)
                | _ \<Rightarrow> Inl ValueError))
      | _ \<Rightarrow> Inl IndexError)"

text \<open>
  The rows are filled into \<^verbatim>\<open>np.zeros((len(ind_objs), len(ind_time)))\<close> one after
  the other; the result is the array as far as it was filled, and the error that
  stopped the loop, if one did.
\<close>

fun fill_rows ::
  "ndarray \<Rightarrow> int list \<Rightarrow> int list \<Rightarrow> cell list list \<Rightarrow> cell list list \<times> error option" where
  "fill_rows img ind_time [] filled = (filled, None)"
| "fill_rows img ind_time (obj # objs) filled =
     (case fitsio_row img ind_time obj of
        Inl e \<Rightarrow>
          (filled @ replicate (Suc (length objs)) (replicate (length ind_time) (Num 0)), Some e)
      | Inr row \<Rightarrow> fill_rows img ind_time objs (filled @ [row]))"

definition all_rows :: "ndarray \<Rightarrow> int list \<Rightarrow> error + ndarray" where
  "all_rows img ind_time =
     (case shape img of
        [n, m] \<Rightarrow>
          (case window_columns m ind_time of
             Inl e \<Rightarrow> Inl e
           | Inr cols \<Rightarrow>
               Inr (Arr [n, length cols]
                      (concat (map (\<lambda>r. map (\<lambda>c. data img ! (r * m + c)) cols) [0..<n]))))
      | _ \<Rightarrow> Inl IndexError)"

text \<open>
  Reading one image: the new dictionary and the error raised on the way, if any.  An
  error in the loop over the objects leaves the partly filled array in the dictionary.
\<close>

definition fitsio_image ::
  "ndarray \<Rightarrow> string \<Rightarrow> bool \<Rightarrow> int list \<Rightarrow> int list \<Rightarrow> dict \<Rightarrow> dict \<times> error option" where
  "fitsio_image img key allobjects ind_objs ind_time dic =
     (if \<not> allobjects
      then (case fill_rows img ind_time ind_objs [] of
              (rows, Some e) \<Rightarrow>
                (AList.update key (Arr [length ind_objs, length ind_time] (concat rows)) dic, Some e)
            | (rows, None) \<Rightarrow>
                (case rescale key (Arr [length ind_objs, length ind_time] (concat rows)) of
                   Inl e \<Rightarrow>
                     (AList.update key (Arr [length ind_objs, length ind_time] (concat rows)) dic,
                      Some e)
                 | Inr a \<Rightarrow> (AList.update key a dic, None)))
      else (case all_rows img ind_time of
              Inl e \<Rightarrow> (dic, Some e)
            | Inr buf \<Rightarrow>
                (case rescale key buf of
                   Inl e \<Rightarrow> (AList.update key buf dic, Some e)
                 | Inr a \<Rightarrow> (AList.update key a dic, None))))"

text \<open>
  Outside a megafile the keys are visited, entries that are \<^verbatim>\<open>None\<close> are passed
  over, and an error ends the call.
\<close>

fun fitsio_images ::
  "fnames \<Rightarrow> bool \<Rightarrow> int list \<Rightarrow> int list \<Rightarrow> string list \<Rightarrow> dict \<Rightarrow> error + dict" where
  "fitsio_images fn allobjects ind_objs ind_time [] dic = Inr dic"
| "fitsio_images fn allobjects ind_objs ind_time (key # keys) dic =
     (case map_of (hdus fn) key of
        Some (Some img) \<Rightarrow>
          (case fitsio_image img key allobjects ind_objs ind_time dic of
             (dic', Some e) \<Rightarrow> Inl e
           | (dic', None) \<Rightarrow> fitsio_images fn allobjects ind_objs ind_time keys dic')
      | _ \<Rightarrow> fitsio_images fn allobjects ind_objs ind_time keys dic)"

text \<open>
  In a megafile the extensions are visited in file order inside
  \<^verbatim>\<open>try: ... except: break\<close>: the first error of any kind ends the loop without
  being raised, and the images after it are not read.
\<close>

fun fitsio_megafile_images ::
  "string list \<Rightarrow> bool \<Rightarrow> int list \<Rightarrow> int list \<Rightarrow> (string \<times> ndarray option) list \<Rightarrow> dict \<Rightarrow> dict" where
  "fitsio_megafile_images keys allobjects ind_objs ind_time [] dic = dic"
| "fitsio_megafile_images keys allobjects ind_objs ind_time ((hdukey, entry) # rest) dic =
     (if hdukey \<in> set keys
      then (case entry of
              None \<Rightarrow> dic
            | Some img \<Rightarrow>
                (case fitsio_image img hdukey allobjects ind_objs ind_time dic of
                   (dic', Some e) \<Rightarrow> dic'
                 | (dic', None) \<Rightarrow>
                     fitsio_megafile_images keys allobjects ind_objs ind_time rest dic'))
      else fitsio_megafile_images keys allobjects ind_objs ind_time rest dic)"

text \<open>
  The stages of the BLS file in \<^verbatim>\<open>fitsio_get_data\<close>.  When no candidate row
  matches, every requested candidate field is \<^verbatim>\<open>np.zeros( len(ind_objs) ) * np.nan\<close>.
\<close>

definition fitsio_bls ::
  "bls_file \<Rightarrow> string list \<Rightarrow> int list \<Rightarrow> string list \<Rightarrow> int \<Rightarrow> dict \<Rightarrow> error + dict" where
  "fitsio_bls b obj_ids ind_objs keys bls_rank dic =
     (let ind_objs_bls = candidate_rows b obj_ids bls_rank
      in case read_columns (bls_catalogue b) (Inds ind_objs)
                (filter (\<lambda>key. key \<notin> set [''OBJ_ID'', ''FLAGS''])
                   (intersect1d (map fst (bls_catalogue b)) keys))
                dic of
           Inl e \<Rightarrow> Inl e
         | Inr dic1 \<Rightarrow>
             (let subkeys = filter (\<lambda>key. key \<notin> set [''OBJ_ID'', ''FLAGS''])
                              (intersect1d (map fst (candidates_table b)) keys)
              in if subkeys = [] then Inr dic1
                 else if ind_objs_bls \<noteq> []
                 then matched_columns (candidates_table b) ind_objs_bls
                        (map (\<lambda>i. strip (cand_objid b ! i)) ind_objs_bls)
                        obj_ids (length ind_objs) subkeys dic1
                 else Inr (placeholders NaN (length ind_objs) subkeys dic1)))"

definition fitsio_get_data ::
  "fnames \<Rightarrow> string list \<Rightarrow> ind_sel \<Rightarrow> string list \<Rightarrow> int \<Rightarrow> ind_sel \<Rightarrow> error + dict" where
  "fitsio_get_data fn obj_ids ind_objs0 keys bls_rank ind_time0 =
     (let allobjects = (ind_objs0 = All);
          ind_objs = explicit_rows (length (cat_objid fn)) ind_objs0;
          ind_time = explicit_rows (nrows (imagelist fn)) ind_time0
      in case read_columns (catalogue_table fn) (Inds ind_objs)
                (intersect1d (map fst (catalogue_table fn)) keys) [] of
           Inl e \<Rightarrow> Inl e
         | Inr dic1 \<Rightarrow>
             (case read_columns (imagelist fn) (Inds ind_time)
                     (intersect1d (map fst (imagelist fn)) keys) dic1 of
                Inl e \<Rightarrow> Inl e
              | Inr dic2 \<Rightarrow>
                  (case (if megafile fn
                         then Inr (fitsio_megafile_images keys allobjects ind_objs ind_time
                                     (hdus fn) dic2)
                         else fitsio_images fn allobjects ind_objs ind_time keys dic2) of
                     Inl e \<Rightarrow> Inl e
                   | Inr dic3 \<Rightarrow>
                       (case bls fn of
                          None \<Rightarrow> Inr dic3
                        | Some b \<Rightarrow> fitsio_bls b obj_ids ind_objs keys bls_rank dic3))))"

section \<open>\<^verbatim>\<open>get_canvas_data\<close>, \<^verbatim>\<open>get_data\<close> and \<^verbatim>\<open>get\<close>\<close>





















section \<open>A small file set for concrete runs\<close>

text \<open>
  A catalogue of three objects stored in identifier order, with blanks after the
  identifiers as fixed-width columns have them, and a text file of rows.
\<close>

definition demo_fnames :: fnames where
  "demo_fnames =
     \<lparr> megafile = False, cat_width = 26,
       cat_objid = [''000046  '', ''001337  '', ''002000  ''],
       cat_cols = [(''RA'', [Num 1, Num 2, Num 3])],
       imagelist = [], hdus = [], bls = None, canvas_objid = None, canvas_cols = [],
       files = [(''rows.txt'', [''0'', ''2''])] \<rparr>"

text \<open>
  Result dictionaries before the invalidation: one object with the flags
  \<open>[0, 1, 0, 1]\<close>, two objects, and one object with a negative flag.
\<close>

definition demo_dic :: dict where
  "demo_dic =
     [(''OBJ_ID'', Arr [1] [Txt ''000046'']),
      (''FLAGS'', Arr [1, 4] [Num 0, Num 1, Num 0, Num 1]),
      (''FLUX'', Arr [1, 4] [Num 1, Num 2, Num 3, Num 4]),
      (''HJD'', Arr [1, 4] [Num 10, Num 20, Num 30, Num 40])]"

definition demo_dic2 :: dict where
  "demo_dic2 =
     [(''OBJ_ID'', Arr [2] [Txt ''000046'', Txt ''001337'']),
      (''FLAGS'', Arr [2, 2] [Num 0, Num 4, Num 1, Num 0]),
      (''FLUX3'', Arr [2, 2] [Num 1, Num 2, Num 3, Num 4]),
      (''HJD'', Arr [2, 2] [Num 10, Num 20, Num 10, Num 20])]"



text \<open>
  The same catalogue with two images and a BLS file whose CANDIDATES table has one
  row, of an object that is not in the catalogue.
\<close>

definition demo_bls_fnames :: fnames where
  "demo_bls_fnames =
     \<lparr> megafile = False, cat_width = 26,
       cat_objid = [''000046'', ''001337'', ''002000''],
       cat_cols = [(''RA'', [Num 1, Num 2, Num 3])],
       imagelist = [(''ACTIONID'', [Num 100, Num 101])],
       hdus = [(''FLAGS'', Some (Arr [3, 2] [Num 0, Num 1, Num 0, Num 0, Num 0, Num 0])),
               (''FLUX3'', Some (Arr [3, 2] [Num 11, Num 12, Num 21, Num 22, Num 31, Num 32]))],
       bls = Some \<lparr> bls_catalogue = [], cand_objid = [''000999''], cand_rank = [1],
                    cand_cols = [(''PERIOD'', [Num 5])] \<rparr>,
       canvas_objid = None, canvas_cols = [],
       files = [] \<rparr>"
section \<open>Properties of the normalisation\<close>

lemma pad6_replicate: "pad6 s = replicate (6 - length s) (CHR ''0'') @ s"
proof (induction s rule: pad6.induct)
  case (1 s)
  show ?case
  proof (cases "length s < 6")
    case True
    then have "pad6 s = pad6 (CHR ''0'' # s)"
      by (subst pad6.simps) simp
    also have "\<dots> = replicate (6 - length (CHR ''0'' # s)) (CHR ''0'') @ CHR ''0'' # s"
      using 1 True by simp
    also have "\<dots> = replicate (6 - length s) (CHR ''0'') @ s"
    proof -
      from True obtain k where k: "6 - length s = Suc k"
        by (cases "6 - length s") auto
      then have "6 - length (CHR ''0'' # s) = k" by simp
      with k show ?thesis by (simp add: replicate_app_Cons_same)
    qed
    finally show ?thesis .
  next
    case False
    then show ?thesis by (subst pad6.simps) simp
  qed
qed

lemma length_pad6: "length (pad6 s) = max 6 (length s)"
  by (simp add: pad6_replicate)

lemma pad6_long: "6 \<le> length s \<Longrightarrow> pad6 s = s"
  by (simp add: pad6_replicate)

section \<open>Object selection: lookups by identifier and by row\<close>



lemma get_indobjs_from_objids_rows:
  assumes "get_indobjs_from_objids fn obj_list fitsreader = Inr ((js, ids), ws)"
  shows "js = map int (match_rows fn (set obj_list)) \<and>
         ids = map ((!) (trimmed_ids fn)) (match_rows fn (set obj_list))"
  using assms
  by (auto simp: get_indobjs_from_objids_def Let_def match_rows_def trimmed_ids_def
           split: sum.splits)

lemma ids_lookup_rows:
  assumes "ids_lookup fn fitsreader w0 obj_list = Inr ((s, ids), ws)"
  shows "s = Inds (map int (match_rows fn (set obj_list))) \<and>
         ids = map ((!) (trimmed_ids fn)) (match_rows fn (set obj_list))"
  using assms get_indobjs_from_objids_rows [of fn obj_list fitsreader]
  by (auto simp: ids_lookup_def split: sum.splits prod.splits)

lemma resolve_obj_ids_rows:
  assumes "resolve_obj_ids fn fitsreader sel = Inr ((s, ids), ws)"
  shows "\<exists>S. s = Inds (map int (match_rows fn S)) \<and>
             ids = map ((!) (trimmed_ids fn)) (match_rows fn S)"
  using assms
  by (cases sel)
     (auto split: if_splits option.splits sum.splits dest!: ids_lookup_rows)

lemma sorted_match_rows: "sorted (match_rows fn S) \<and> distinct (match_rows fn S)"
  by (simp add: match_rows_def sorted_wrt_filter)

lemma match_rows_bound: "i \<in> set (match_rows fn S) \<Longrightarrow> i < length (trimmed_ids fn)"
  by (simp add: match_rows_def)

lemma sorted_map_nth:
  fixes xs :: "'a::linorder list"
  assumes "sorted xs" "sorted js" "\<forall>j\<in>set js. j < length xs"
  shows "sorted (map ((!) xs) js)"
proof -
  have "sorted_wrt (\<lambda>i j. xs ! i \<le> xs ! j) js"
    using assms(2)
    by (rule sorted_wrt_mono_rel [rotated]) (use assms in \<open>auto intro: sorted_nth_mono\<close>)
  then show ?thesis by (simp add: sorted_map)
qed

lemma sorted_map_int: "sorted js \<Longrightarrow> sorted (map int js)"
  by (simp add: sorted_map sorted_wrt_mono_rel [of js "(\<le>)"])

lemma sort_map_mono:
  fixes f :: "'a::linorder \<Rightarrow> 'b::linorder"
  assumes "\<forall>x\<in>set xs. \<forall>y\<in>set xs. x \<le> y \<longrightarrow> f x \<le> f y"
  shows "sort (map f xs) = map f (sort xs)"
proof (rule properties_for_sort)
  show "mset (map f (sort xs)) = mset (map f xs)" by simp
  have "sorted_wrt (\<lambda>x y. f x \<le> f y) (sort xs)"
    by (rule sorted_wrt_mono_rel [of "sort xs" "(\<le>)"]) (use assms in auto)
  then show "sorted (map f (sort xs))" by (simp add: sorted_map)
qed

lemma mapM_py_index:
  assumes "mapM (py_index xs) js = Inr rows"
  shows "rows = map (\<lambda>j. xs ! nat (if j < 0 then int (length xs) + j else j)) js \<and>
         (\<forall>j\<in>set js. - int (length xs) \<le> j \<and> j < int (length xs))"
  using assms
proof (induction js arbitrary: rows)
  case Nil
  then show ?case by simp
next
  case (Cons j js)
  then show ?case
    by (auto simp: py_index_def Let_def split: sum.splits if_splits)
qed

lemma items_objid_6digit_NdArray:
  "items (objid_6digit (NdArray w xs)) = map (\<lambda>s. take w (pad6 s)) xs"
  by (simp add: objid_6digit_def)

lemma row_ids_nth:
  "k < length (cat_objid fn) \<Longrightarrow> row_ids fn ! k = take (cat_width fn) (pad6 (strip (cat_objid fn ! k)))"
  by (simp add: row_ids_def items_objid_6digit_NdArray)

lemma length_row_ids: "length (row_ids fn) = length (cat_objid fn)"
  by (simp add: row_ids_def items_objid_6digit_NdArray)

lemma rows_lookup_rows:
  assumes "rows_lookup fn fitsreader r = Inr ((s, ids), ws)"
    and "\<forall>j\<in>set (inds_of s). 0 \<le> j"
  shows "s = Inds (fst r) \<and> ids = map (\<lambda>j. row_ids fn ! nat j) (fst r) \<and>
         (\<forall>j\<in>set (fst r). nat j < length (row_ids fn))"
proof -
  from assms(1) obtain rows where
    s: "s = Inds (fst r)" and
    rows: "mapM (py_index (cat_objid fn)) (fst r) = Inr rows" and
    ids: "ids = map (\<lambda>s. take (cat_width fn) (pad6 s)) (map strip rows)"
    by (auto simp: rows_lookup_def get_objids_from_indobjs_def items_objid_6digit_NdArray
             split: sum.splits)
  from mapM_py_index [OF rows] have
    r1: "rows = map (\<lambda>j. cat_objid fn ! nat (if j < 0 then int (length (cat_objid fn)) + j else j)) (fst r)"
    and r2: "\<forall>j\<in>set (fst r). j < int (length (cat_objid fn))" by auto
  from assms(2) s have nn: "\<forall>j\<in>set (fst r). 0 \<le> j" by simp
  have bound: "\<forall>j\<in>set (fst r). nat j < length (row_ids fn)"
  proof
    fix j assume j: "j \<in> set (fst r)"
    with r2 nn have "0 \<le> j" "j < int (length (cat_objid fn))" by auto
    then show "nat j < length (row_ids fn)" by (simp add: length_row_ids nat_less_iff)
  qed
  have "ids = map (\<lambda>j. row_ids fn ! nat j) (fst r)"
    unfolding ids r1 using nn bound
    by (auto simp: row_ids_nth length_row_ids)
  with s bound show ?thesis by simp
qed

lemma resolve_obj_rows_rows:
  assumes "resolve_obj_rows fn indexing fitsreader sel = Inr ((s, ids), ws)"
    and "\<forall>j\<in>set (inds_of s). 0 \<le> j"
  shows "\<exists>js. s = Inds js \<and> ids = map (\<lambda>j. row_ids fn ! nat j) js \<and>
         (\<forall>j\<in>set js. nat j < length (row_ids fn))"
  using assms
  by (cases sel)
     (auto split: if_splits option.splits sum.splits dest!: rows_lookup_rows)

lemma sort_both_Inr:
  assumes "map_sum id sort_both r = Inr ((sel, ids), ws)"
  shows "\<exists>s0 ids0. r = Inr ((s0, ids0), ws) \<and> sort_both ((s0, ids0), ws) = ((sel, ids), ws)"
proof (cases r)
  case (Inl e)
  with assms show ?thesis by simp
next
  case (Inr x)
  obtain s0 ids0 ws0 where x: "x = ((s0, ids0), ws0)" by (metis surj_pair)
  with Inr assms have "sort_both ((s0, ids0), ws0) = ((sel, ids), ws)" by simp
  moreover from this have "ws0 = ws" by (cases s0) auto
  ultimately show ?thesis using Inr x by simp
qed

lemma ids_path:
  assumes r: "resolve_obj_ids fn fitsreader a = Inr ((s0, ids0), ws)"
    and sb: "sort_both ((s0, ids0), ws) = ((sel, ids), ws)"
    and cat: "sorted (trimmed_ids fn)"
  shows "\<exists>js. sel = Inds js \<and> length js = length ids \<and> sorted js \<and> sorted ids \<and>
              ids = map (\<lambda>j. trimmed_ids fn ! nat j) js \<and> distinct js"
proof -
  from resolve_obj_ids_rows [OF r] obtain S where
    s0: "s0 = Inds (map int (match_rows fn S))" and
    ids0: "ids0 = map ((!) (trimmed_ids fn)) (match_rows fn S)" by blast
  let ?m = "match_rows fn S"
  have sm: "sorted ?m" "distinct ?m" using sorted_match_rows by auto
  have sj: "sorted (map int ?m)" using sm(1) by (rule sorted_map_int)
  have si: "sorted ids0" unfolding ids0
    by (rule sorted_map_nth [OF cat sm(1)]) (auto dest: match_rows_bound)
  from sb s0 have sel: "sel = Inds (map int ?m)" and ids: "ids = ids0"
    using sj si by (simp_all add: sorted_sort_id)
  have "distinct (map int ?m)" using sm(2) by (simp add: distinct_map inj_on_def)
  with sel ids ids0 sj si show ?thesis by (simp add: comp_def)
qed

lemma rows_path:
  assumes r: "resolve_obj_rows fn indexing fitsreader b = Inr ((s0, ids0), ws)"
    and sb: "sort_both ((s0, ids0), ws) = ((sel, ids), ws)"
    and cat: "sorted (row_ids fn)"
    and nonneg: "\<forall>j\<in>set (inds_of sel). 0 \<le> j"
  shows "\<exists>js. sel = Inds js \<and> length js = length ids \<and> sorted js \<and> sorted ids \<and>
              ids = map (\<lambda>j. row_ids fn ! nat j) js"
proof -
  have nn0: "\<forall>j\<in>set (inds_of s0). 0 \<le> j"
    using sb nonneg by (cases s0) auto
  from resolve_obj_rows_rows [OF r nn0] obtain js0 where
    s0: "s0 = Inds js0" and
    ids0: "ids0 = map (\<lambda>j. row_ids fn ! nat j) js0" and
    bound: "\<forall>j\<in>set js0. nat j < length (row_ids fn)" by blast
  from nn0 s0 have nn: "\<forall>j\<in>set js0. 0 \<le> j" by simp
  have mono: "\<forall>x\<in>set js0. \<forall>y\<in>set js0. x \<le> y \<longrightarrow> row_ids fn ! nat x \<le> row_ids fn ! nat y"
    using bound nn cat by (auto intro!: sorted_nth_mono)
  from sb s0 have sel: "sel = Inds (sort js0)" and ids: "ids = sort ids0" by auto
  have "ids = map (\<lambda>j. row_ids fn ! nat j) (sort js0)"
    unfolding ids ids0 by (rule sort_map_mono [OF mono])
  moreover have "sorted ids" unfolding ids by simp
  ultimately show ?thesis using sel by simp
qed

section \<open>Claims about object selection\<close>

text \<open>
  C9, as far as it holds: on a Python list, and on an array whose items hold six
  characters, \<^verbatim>\<open>objid_6digit\<close> turns every identifier of at most six characters
  into six characters, zeros in front of the unchanged input.
\<close>

lemma objid_6digit_canonical:
  assumes "case l of PyList xs \<Rightarrow> True | NdArray w xs \<Rightarrow> 6 \<le> w"
    and "\<forall>s\<in>set (items l). length s \<le> 6"
  shows "items (objid_6digit l) = map (\<lambda>s. replicate (6 - length s) (CHR ''0'') @ s) (items l)"
    and "\<forall>t\<in>set (items (objid_6digit l)). length t = 6"
  using assms by (cases l; auto simp: objid_6digit_def pad6_replicate)+

lemma objid_6digit_examples:
  "objid_6digit (PyList [''46'', ''1337'']) = PyList [''000046'', ''001337'']"
  by code_simp

text \<open>
  C9: every valid identifier input is normalised to six characters with the input as
  suffix: \<^verbatim>\<open>'46'\<close> to \<^verbatim>\<open>'000046'\<close>, \<^verbatim>\<open>'1337'\<close> to \<^verbatim>\<open>'001337'\<close>.
  The code does not do this for a list of strings: \<^verbatim>\<open>get_obj_inds\<close> turns the
  list into a NumPy array, whose item size is the longest input, and
  \<^verbatim>\<open>objid_6digit\<close> stores each padded string back into that array, which keeps
  its first characters only.  For \<^verbatim>\<open>obj_id = ['46', '1337']\<close> the normalised
  identifiers are \<^verbatim>\<open>'0000'\<close> and \<^verbatim>\<open>'0013'\<close>, and both objects, which are in
  the catalogue, are reported as not found.
\<close>

theorem objid_6digit_string_list_truncated:
  "objid_6digit (atleast_1d_str [''46'', ''1337'']) = NdArray 4 [''0000'', ''0013''] \<and>
   get_obj_inds demo_fnames (Some (StrSeq [''46'', ''1337''])) None ''fits'' ''pyfits'' =
     Inr ((Inds [], []), [not_found_msg ''0000'', not_found_msg ''0013'']) \<and>
   get_obj_inds demo_fnames (Some (IntSeq [46, 1337])) None ''fits'' ''pyfits'' =
     Inr ((Inds [0, 1], [''000046'', ''001337'']), [])"
  by code_simp



text \<open>
  C7: under the \<^verbatim>\<open>'fits'\<close> convention a 0 among the rows switches the call
  to 0-based rows, with a warning and without a shift, whatever the input form.  The
  branch of \<^verbatim>\<open>get_obj_inds\<close> for a text file of rows has no such test: for a
  file holding 0 and 2 every row is shifted, row \<open>-1\<close> (the last row of the
  catalogue) is read and no warning is raised, while the same rows given as a list are
  kept as they are, with the warning.
\<close>

theorem get_obj_inds_row_file_zero_shifted:
  "get_obj_inds demo_fnames None (Some (StrVal ''rows.txt'')) ''fits'' ''pyfits'' =
     Inr ((Inds [- 1, 1], [''001337'', ''002000'']), []) \<and>
   get_obj_inds demo_fnames None (Some (IntSeq [0, 2])) ''fits'' ''pyfits'' =
     Inr ((Inds [0, 2], [''000046'', ''002000'']), [zero_warning])"
  by code_simp

text \<open>
  C1, as stated, asks for deduplicated results.  \<^verbatim>\<open>get_obj_inds\<close> sorts with
  \<^verbatim>\<open>np.sort\<close> and removes nothing: a row given twice is returned twice, in a
  catalogue stored in identifier order.
\<close>

theorem get_obj_inds_keeps_duplicates:
  "catalogue_sorted demo_fnames \<and>
   get_obj_inds demo_fnames None (Some (IntSeq [2, 2])) ''fits'' ''fitsio'' =
     Inr ((Inds [1, 1], [''001337'', ''001337'']), []) \<and>
   \<not> distinct [1, 1 :: int] \<and> \<not> distinct [''001337'', ''001337'']"
  by code_simp

text \<open>
  C1, amended: whenever an object input is given and \<^verbatim>\<open>get_obj_inds\<close> returns,
  in a catalogue stored in identifier order and with no negative row among the resolved
  indices, the index sequence and the identifier sequence have equal length, both are
  sorted ascending, and they correspond pairwise: the identifier at each position is the
  identifier of the catalogue row at that position of the index sequence.  Duplicates of
  a row input are kept; for an identifier input (list, scalar, file or keyword) the
  indices are distinct.
\<close>

theorem get_obj_inds_sorted_paired:
  assumes res: "get_obj_inds fn obj_ids obj_rows indexing fitsreader = Inr ((sel, ids), ws)"
    and given: "obj_ids \<noteq> None \<or> obj_rows \<noteq> None"
    and cat: "catalogue_sorted fn"
    and nonneg: "\<forall>j\<in>set (inds_of sel). 0 \<le> j"
  shows "\<exists>js. sel = Inds js \<and> length js = length ids \<and> sorted js \<and> sorted ids \<and>
              ids = map (\<lambda>j. (if obj_rows = None then trimmed_ids fn else row_ids fn) ! nat j) js \<and>
              (obj_rows = None \<longrightarrow> distinct js)"
proof (cases obj_ids)
  case None
  with given obtain b where b: "obj_rows = Some b" by auto
  from res None b have "map_sum id sort_both (resolve_obj_rows fn indexing fitsreader b) = Inr ((sel, ids), ws)"
    by (simp add: get_obj_inds_def)
  from sort_both_Inr [OF this] obtain s0 ids0 where
    "resolve_obj_rows fn indexing fitsreader b = Inr ((s0, ids0), ws)"
    "sort_both ((s0, ids0), ws) = ((sel, ids), ws)" by blast
  from rows_path [OF this _ nonneg] cat b show ?thesis
    by (simp add: catalogue_sorted_def)
next
  case (Some a)
  with res have rows: "obj_rows = None"
    by (cases obj_rows) (simp_all add: get_obj_inds_def)
  from res Some rows have "map_sum id sort_both (resolve_obj_ids fn fitsreader a) = Inr ((sel, ids), ws)"
    by (simp add: get_obj_inds_def)
  from sort_both_Inr [OF this] obtain s0 ids0 where
    "resolve_obj_ids fn fitsreader a = Inr ((s0, ids0), ws)"
    "sort_both ((s0, ids0), ws) = ((sel, ids), ws)" by blast
  from ids_path [OF this] cat rows show ?thesis
    by (simp add: catalogue_sorted_def)
qed

theorem get_obj_inds_sorted_paired_witness:
  "get_obj_inds demo_fnames None (Some (IntSeq [3, 1])) ''fits'' ''fitsio'' =
     Inr ((Inds [0, 2], [''000046'', ''002000'']), []) \<and>
   catalogue_sorted demo_fnames \<and>
   (\<exists>js. Inds [0, 2] = Inds js \<and> length js = length [''000046'', ''002000''] \<and> sorted js \<and>
      sorted [''000046'', ''002000''] \<and>
      [''000046'', ''002000''] =
        map (\<lambda>j. (if Some (IntSeq [3, 1]) = None then trimmed_ids demo_fnames
                    else row_ids demo_fnames) ! nat j) js \<and>
      (Some (IntSeq [3, 1]) = None \<longrightarrow> distinct js))"
proof -
  have r: "get_obj_inds demo_fnames None (Some (IntSeq [3, 1])) ''fits'' ''fitsio'' =
     Inr ((Inds [0, 2], [''000046'', ''002000'']), [])"
    by code_simp
  have c: "catalogue_sorted demo_fnames" by code_simp
  have g: "(None :: selector option) \<noteq> None \<or> Some (IntSeq [3, 1]) \<noteq> None" by simp
  have n: "\<forall>j\<in>set (inds_of (Inds [0, 2])). 0 \<le> j" by simp
  from get_obj_inds_sorted_paired [OF r g c n] r c show ?thesis by (intro conjI)
qed

section \<open>Dimensional simplification\<close>

lemma concat_blocks:
  "concat (map (\<lambda>i. take b (drop (i * b) xs)) [0..<n]) = take (n * b) xs"
proof (induction n)
  case 0
  then show ?case by simp
next
  case (Suc n)
  have "Suc n * b = n * b + b" by simp
  then have "take (Suc n * b) xs = take (n * b) xs @ take b (drop (n * b) xs)"
    by (simp only: take_add)
  with Suc show ?case by simp
qed

lemma first_along_axis0_unit:
  assumes "wf_array v" "shape v = 1 # rest"
  shows "first_along_axis0 v = Arr rest (data v)"
  using assms by (simp add: first_along_axis0_def wf_array_def)

lemma first_along_axis1_unit:
  assumes "wf_array v" "shape v = n # 1 # rest"
  shows "first_along_axis1 v = Arr (n # rest) (data v)"
  using assms concat_blocks [of "prod_list rest" "data v" n]
  by (simp add: first_along_axis1_def wf_array_def Let_def)

lemma simplify_value_leading:
  assumes "wf_array v" "shape v = 1 # rest"
  shows "simplify_value v = Inr (Arr rest (data v))"
  using assms by (simp add: simplify_value_def first_along_axis0_unit)

lemma simplify_value_trailing:
  assumes "wf_array v" "shape v = n # 1 # rest"
  shows "simplify_value v = Inr (Arr (if n = 1 then 1 # rest else n # rest) (data v))"
  using assms
  by (auto simp: simplify_value_def first_along_axis0_unit first_along_axis1_unit)

lemma mapM_list_all2:
  "mapM f xs = Inr ys \<Longrightarrow> list_all2 (\<lambda>x y. f x = Inr y) xs ys"
  by (induction xs arbitrary: ys) (auto split: sum.splits)

lemma simplify_dic_fields:
  assumes "simplify_dic dic = Inr dic'"
  shows "list_all2 (\<lambda>(key, v) (key', v'). key' = key \<and> simplify_value v = Inr v') dic dic'"
proof -
  from assms have "list_all2 (\<lambda>x y. (case x of (key, v) \<Rightarrow> map_sum id (Pair key) (simplify_value v)) = Inr y) dic dic'"
    unfolding simplify_dic_def by (rule mapM_list_all2)
  then show ?thesis
    by (rule list_all2_mono) (auto simp: map_sum_def split: sum.splits prod.splits)
qed

text \<open>
  C5, as stated, lets a field of shape \<open>(1, 1)\<close> collapse to a scalar.
  \<^verbatim>\<open>simplify_dic\<close> tests the leading axis first and the trailing axis only
  otherwise (\<^verbatim>\<open>if\<close> ... \<^verbatim>\<open>elif\<close>), once per field: one axis is dropped and
  the field keeps shape \<open>(1)\<close>.
\<close>

theorem simplify_dic_unit_matrix_not_scalar:
  "simplify_value (Arr [1, 1] [Num 7]) = Inr (Arr [1] [Num 7]) \<and>
   simplify_dic [(''PERIOD'', Arr [1, 1] [Num 7])] = Inr [(''PERIOD'', Arr [1] [Num 7])] \<and>
   shape (Arr [1] [Num 7]) \<noteq> []"
  by (simp add: simplify_dic_def simplify_value_def first_along_axis0_def)

text \<open>
  C5, amended: per field, independently of the other fields, a well-formed field whose
  leading axis has length 1 loses that axis, and a two-dimensional field whose trailing
  axis has length 1 loses one axis; the cells are unchanged.  Shape \<open>(1, 5)\<close>
  becomes \<open>(5)\<close>, shape \<open>(5, 1)\<close> becomes \<open>(5)\<close>, and shape \<open>(1, 1)\<close>
  becomes \<open>(1)\<close>, a one-element array.
\<close>

theorem simplify_dic_drops_one_axis:
  assumes "wf_array v"
  shows "(shape v = 1 # rest \<longrightarrow> simplify_value v = Inr (Arr rest (data v))) \<and>
         (shape v = [n, 1] \<longrightarrow> simplify_value v = Inr (Arr [n] (data v))) \<and>
         (shape v = [1, 5] \<longrightarrow> simplify_value v = Inr (Arr [5] (data v))) \<and>
         (shape v = [5, 1] \<longrightarrow> simplify_value v = Inr (Arr [5] (data v))) \<and>
         (shape v = [1, 1] \<longrightarrow> simplify_value v = Inr (Arr [1] (data v))) \<and>
         (simplify_dic dic = Inr dic' \<longrightarrow>
            list_all2 (\<lambda>(key, a) (key', a'). key' = key \<and> simplify_value a = Inr a') dic dic')"
  using assms simplify_value_trailing [of v n "[]"]  simplify_value_trailing [of v 5 "[]"]
  by (auto simp: simplify_value_leading simplify_dic_fields)


theorem simplify_dic_drops_one_axis_witness:
  "wf_array (Arr [1, 5] [Num 1, Num 2, Num 3, Num 4, Num 5]) \<and>
   simplify_value (Arr [1, 5] [Num 1, Num 2, Num 3, Num 4, Num 5]) =
     Inr (Arr [5] [Num 1, Num 2, Num 3, Num 4, Num 5]) \<and>
   wf_array (Arr [5, 1] [Num 1, Num 2, Num 3, Num 4, Num 5]) \<and>
   simplify_value (Arr [5, 1] [Num 1, Num 2, Num 3, Num 4, Num 5]) =
     Inr (Arr [5] [Num 1, Num 2, Num 3, Num 4, Num 5]) \<and>
   wf_array (Arr [1, 1] [Num 7]) \<and>
   simplify_value (Arr [1, 1] [Num 7]) = Inr (Arr [1] [Num 7])"
proof -
  have w1: "wf_array (Arr [1, 5] [Num 1, Num 2, Num 3, Num 4, Num 5])"
    and w2: "wf_array (Arr [5, 1] [Num 1, Num 2, Num 3, Num 4, Num 5])"
    and w3: "wf_array (Arr [1, 1] [Num 7])"
    by (simp_all add: wf_array_def)
  from simplify_dic_drops_one_axis [OF w1, of "[5]"]
  have a: "simplify_value (Arr [1, 5] [Num 1, Num 2, Num 3, Num 4, Num 5]) =
     Inr (Arr [5] [Num 1, Num 2, Num 3, Num 4, Num 5])" by simp
  from simplify_dic_drops_one_axis [OF w2, of _ 5]
  have b: "simplify_value (Arr [5, 1] [Num 1, Num 2, Num 3, Num 4, Num 5]) =
     Inr (Arr [5] [Num 1, Num 2, Num 3, Num 4, Num 5])" by simp
  from simplify_dic_drops_one_axis [OF w3, of "[1]"]
  have c: "simplify_value (Arr [1, 1] [Num 7]) = Inr (Arr [1] [Num 7])" by simp
  from w1 w2 w3 a b c show ?thesis by (intro conjI)
qed

section \<open>Flag-driven invalidation\<close>

lemma length_unravel [simp]: "length (unravel s p) = length s"
  by (induction s arbitrary: p) auto








lemma length_masked [simp]: "length (masked fl xs) = min (length fl) (length xs)"
  by (simp add: masked_def)

lemma length_restrict_rows [simp]: "length (restrict_rows m R fl) = length fl"
  by (simp add: restrict_rows_def)











lemma set_nan_dic_examples:
  "set_nan_dic demo_dic =
     Inr [(''OBJ_ID'', Arr [1] [Txt ''000046'']),
          (''FLAGS'', Arr [1, 4] [Num 0, Num 1, Num 0, Num 1]),
          (''FLUX'', Arr [1, 4] [Num 1, NaN, Num 3, NaN]),
          (''HJD'', Arr [1, 4] [Num 10, Num 20, Num 30, Num 40])]"
  "set_nan_dic demo_dic2 =
     Inr [(''OBJ_ID'', Arr [2] [Txt ''000046'', Txt ''001337'']),
          (''FLAGS'', Arr [2, 2] [Num 0, Num 4, Num 1, Num 0]),
          (''FLUX3'', Arr [2, 2] [Num 1, NaN, NaN, Num 4]),
          (''HJD'', Arr [2, 2] [Num 10, Num 20, Num 10, Num 20])]"
  by code_simp+




section \<open>Range expansion\<close>




lemma perdelta_upt: "perdelta a b = [a..<b]"
proof (induction a b rule: perdelta.induct)
  case (1 cur end_day)
  show ?case
  proof (cases "cur < end_day")
    case True
    with 1 have "perdelta (cur + 1) end_day = [cur + 1..<end_day]" by simp
    with True show ?thesis
      by (subst perdelta.simps) (simp add: upt_conv_Cons)
  next
    case False
    then show ?thesis by (subst perdelta.simps) simp
  qed
qed



lemmas parse_defs = format_start_def format_end_def strptime_dashed_def strptime_compact_def
  make_datetime_def parse_year_def parse_month_def parse_day_def is_digit_def nat_of_digits_def
  digit_val_def less_eq_char_def days_in_month_def is_leap_def replace_slash_def
  ymd2ord_def days_before_year_def days_before_month_def

lemmas date_eval = get_time_date_from_range_def solve_range_def format_date_def parse_defs
  perdelta_upt strftime_def ord2ymd_def Let_def str_nat.simps digit_char_def two_digits_def


text \<open>
  Runs of the date expander: an end given with slashes is accepted, a start given with
  slashes is not (the replaced string is dropped), an end before the start gives no
  day, and a start before 1900 cannot be formatted.
\<close>

lemma date_range_examples:
  "get_time_date_from_range ''20200227:2020/03/02'' =
     Inr [''2020-02-27'', ''2020-02-28'', ''2020-02-29'', ''2020-03-01'']"
  "get_time_date_from_range ''2020/01/01:2020/01/04'' = Inl ValueError"
  "get_time_date_from_range ''2020-01-04:2020-01-01'' = Inr []"
  "get_time_date_from_range ''1899-12-30:1900-01-02'' = Inl ValueError"
  by (simp_all add: date_eval)



section \<open>The readers keep the keys they are given\<close>













section \<open>What \<^verbatim>\<open>get\<close> keeps in the dictionary\<close>


lemma has_key_update [simp]:
  "has_key (AList.update key v dic) k = (k = key \<or> has_key dic k)"
  by (simp add: has_key_def update_conv')

lemma has_key_delete [simp]:
  "has_key (AList.delete key dic) k = (k \<noteq> key \<and> has_key dic k)"
  by (simp add: has_key_def delete_conv')
















section \<open>The claims about the readers and about \<^verbatim>\<open>get\<close>\<close>

text \<open>
  C2: for the same file set, objects, keys, rank and times the two readers return equal
  dictionaries, and in particular the same placeholder for a candidate field when no
  selected object has a candidate row.  The code does not do this.  When no row of the
  CANDIDATES table belongs to a selected object, \<^verbatim>\<open>pyfits_get_data\<close> fills the
  field with \<^verbatim>\<open>np.zeros( N_objs )\<close> and \<^verbatim>\<open>fitsio_get_data\<close> with
  \<^verbatim>\<open>np.zeros( len(ind_objs) ) * np.nan\<close>: for two catalogue objects without a
  candidate, the key PERIOD is \<open>[0, 0]\<close> from one reader and \<open>[NaN, NaN]\<close> from the
  other.
\<close>

theorem readers_differ_without_candidate:
  "pyfits_get_data demo_bls_fnames [''000046'', ''001337''] (Inds [0, 1])
       [''PERIOD'', ''OBJ_ID''] 1 All
     = Inr [(''OBJ_ID'', Arr [2] [Txt ''000046'', Txt ''001337'']),
            (''PERIOD'', Arr [2] [Num 0, Num 0])] \<and>
   fitsio_get_data demo_bls_fnames [''000046'', ''001337''] (Inds [0, 1])
       [''PERIOD'', ''OBJ_ID''] 1 All
     = Inr [(''OBJ_ID'', Arr [2] [Txt ''000046'', Txt ''001337'']),
            (''PERIOD'', Arr [2] [NaN, NaN])]"
  by code_simp

text \<open>
  On the catalogue and image fields of the same file set the two readers agree.
\<close>

lemma readers_agree_on_images:
  "pyfits_get_data demo_bls_fnames [''000046'', ''001337''] (Inds [0, 1])
       [''FLUX3'', ''RA'', ''OBJ_ID''] 1 All
     = fitsio_get_data demo_bls_fnames [''000046'', ''001337''] (Inds [0, 1])
       [''FLUX3'', ''RA'', ''OBJ_ID''] 1 All"
  by code_simp








end
